theory Spec2Isabelle
  imports Main
begin

section \<open>Data model\<close>

text \<open>
  Keys of the datastore (\<^verbatim>\<open>db.Key\<close>) are opaque; they are compared for equality only.
  A key object is always truthy, so \<^verbatim>\<open>if not cart_key\<close> tests for \<^verbatim>\<open>None\<close>.
\<close>

type_synonym db_key = nat

text \<open>Exceptions that the modelled code raises (or that Python raises for it).\<close>

datatype py_error =
    NotFound
  | TypeError
  | ValueError
  | AssertionError
  | LookupError
  | InvalidArgumentException string string

text \<open>
  The destination of a shipping relation (\<^verbatim>\<open>shipping["dest"]\<close>): a shipping skeleton with its
  key and its cost; the cost may be missing (\<^verbatim>\<open>None\<close>).
\<close>

record ShippingSkel =
  shipping_key :: db_key
  shipping_cost :: "int option"

text \<open>
  The payload of a shipping relation (\<^verbatim>\<open>shipping["rel"]\<close>, the preconditions) is read by the
  applicability predicate only.
\<close>

type_synonym rel_skel = string

text \<open>
  One entry of a configuration's \<^verbatim>\<open>shipping\<close> bone: the relation dictionary
  \<^verbatim>\<open>{"dest": ..., "rel": ...}\<close> that the code subscripts with \<^verbatim>\<open>shipping["dest"]\<close> and
  \<^verbatim>\<open>shipping["rel"]\<close>.
\<close>

record shipping_rel =
  dest :: ShippingSkel
  rel :: rel_skel

text \<open>
  A shipping configuration as referenced from an article. The \<^verbatim>\<open>shipping\<close> bone holds a list
  of relation entries or \<^verbatim>\<open>None\<close> (the code guards one read with \<^verbatim>\<open>or []\<close>).
\<close>

record ShippingConfigSkel =
  config_key :: db_key
  shipping :: "shipping_rel list option"

text \<open>
  An article: \<^verbatim>\<open>article_skel["shop_shipping_config"]\<close> is \<^verbatim>\<open>None\<close> or a relation whose
  \<^verbatim>\<open>"dest"\<close> is the configuration.
\<close>

record ArticleAbstractSkel =
  article_key :: db_key
  shop_shipping_config :: "ShippingConfigSkel option"

text \<open>A cart node as loaded by \<^verbatim>\<open>fromDB\<close>.\<close>

record CartNodeSkel =
  node_key :: db_key
  node_total :: int

text \<open>
  A child of a cart node: a sub-cart (its skeleton class is a \<^verbatim>\<open>CartNodeSkel\<close>) with its key,
  or a leaf with the skeleton of its article.
\<close>

datatype cart_child = Node db_key | Leaf ArticleAbstractSkel

text \<open>
  The applicability predicate is called with exactly one of \<^verbatim>\<open>article_skel=\<close> and
  \<^verbatim>\<open>cart_skel=\<close>.
\<close>

datatype applicability_subject = ForArticle ArticleAbstractSkel | ForCart CartNodeSkel

text \<open>
  Modelled from the spec: \<^verbatim>\<open>order.py\<close> imports the enumeration \<^verbatim>\<open>AddressType\<close> from
  \<^verbatim>\<open>constants.py\<close>, which does not declare it. The spec names its member \<^verbatim>\<open>BILLING\<close>; the
  other member stands for every address type that is not \<^verbatim>\<open>BILLING\<close>.
\<close>

datatype AddressType = BILLING | SHIPPING

record AddressSkel =
  address_type :: AddressType

text \<open>
  An order. The relations \<^verbatim>\<open>cart\<close> and \<^verbatim>\<open>customer\<close> hold the key they point to, the relation
  \<^verbatim>\<open>billing_address\<close> holds the address it resolved to (its \<^verbatim>\<open>"dest"\<close>); an unset bone is
  \<^verbatim>\<open>None\<close>.
\<close>

record OrderSkel =
  cart :: "db_key option"
  total :: int
  payment_provider :: "string option"
  billing_address :: "AddressSkel option"
  email :: "string option"
  customer :: "db_key option"
  state_ordered :: bool
  state_paid :: bool
  state_rts :: bool
  is_ordered :: bool
  order_uid :: "string option"

text \<open>
  A payment provider (\<^verbatim>\<open>PaymentProviderAbstract\<close>): its name and its two checks, each
  returning a list of error strings.
\<close>

record PaymentProviderAbstract =
  pp_name :: string
  pp_can_checkout :: "OrderSkel \<Rightarrow> string list"
  pp_can_order :: "OrderSkel \<Rightarrow> string list"

text \<open>The signed-in user, as \<^verbatim>\<open>current.user.get()\<close> returns it.\<close>

record user_skel =
  user_name :: string
  user_key :: db_key

text \<open>
  The state and the collaborators that the two modules reach through \<^verbatim>\<open>self.shop\<close>, the
  datastore and the request context: the children of a cart node
  (\<^verbatim>\<open>shop.cart.get_children\<close>), the pluggable predicate
  \<^verbatim>\<open>shop.shipping_config.is_applicable\<close>, which returns a flag and a reason, the cart nodes
  in the datastore, the key of the session's cart, the check \<^verbatim>\<open>shop.cart.is_valid_node\<close>,
  the stored addresses, the signed-in user, the framework's \<^verbatim>\<open>setBoneValue\<close> for the
  customer relation (from the value given and the bone's old content to its new content),
  the registered payment providers and the stored orders.
\<close>

record shop =
  get_children :: "db_key \<Rightarrow> cart_child list"
  is_applicable :: "ShippingSkel \<Rightarrow> rel_skel \<Rightarrow> applicability_subject \<Rightarrow> bool \<times> string"
  cart_nodes :: "db_key \<rightharpoonup> CartNodeSkel"
  current_session_cart_key :: "db_key option"
  is_valid_node :: "db_key \<Rightarrow> bool \<Rightarrow> bool"
  addresses :: "db_key \<rightharpoonup> AddressSkel"
  current_user :: "user_skel option"
  setBoneValue_customer :: "db_key option \<Rightarrow> db_key option \<Rightarrow> db_key option"
  payment_providers :: "PaymentProviderAbstract list"
  orders :: "db_key \<rightharpoonup> OrderSkel"

text \<open>
  \<^verbatim>\<open>cart_skel.fromDB(cart_key)\<close>: the stored node under its key; nothing is loaded for a missing
  key or a missing entity.
\<close>

definition fromDB :: "(db_key \<rightharpoonup> CartNodeSkel) \<Rightarrow> db_key option \<Rightarrow> CartNodeSkel option" where
  "fromDB db k =
     (case k of
        None \<Rightarrow> None
      | Some k' \<Rightarrow> (case db k' of None \<Rightarrow> None | Some skel \<Rightarrow> Some (skel\<lparr>node_key := k'\<rparr>)))"

section \<open>Python primitives used by the code\<close>

text \<open>\<^verbatim>\<open>cost or 0\<close>: a missing cost and a cost of zero both give zero.\<close>

definition or_zero :: "int option \<Rightarrow> int" where
  "or_zero c = (case c of None \<Rightarrow> 0 | Some v \<Rightarrow> if v = 0 then 0 else v)"

text \<open>
  \<^verbatim>\<open>min(xs, key=f)\<close>: raises \<^verbatim>\<open>ValueError\<close> on an empty sequence; otherwise it keeps the
  first item and replaces it only by an item whose key is strictly smaller. An exception of
  the key function propagates.
\<close>

fun min_loop :: "('a \<Rightarrow> py_error + int) \<Rightarrow> 'a \<Rightarrow> int \<Rightarrow> 'a list \<Rightarrow> py_error + 'a" where
  "min_loop f best kbest [] = Inr best"
| "min_loop f best kbest (x # xs) =
     (case f x of
        Inl e \<Rightarrow> Inl e
      | Inr k \<Rightarrow> if k < kbest then min_loop f x k xs else min_loop f best kbest xs)"

fun py_min :: "('a \<Rightarrow> py_error + int) \<Rightarrow> 'a list \<Rightarrow> py_error + 'a" where
  "py_min f [] = Inl ValueError"
| "py_min f (x # xs) = (case f x of Inl e \<Rightarrow> Inl e | Inr k \<Rightarrow> min_loop f x k xs)"

text \<open>
  A Python dictionary keeps its keys in the order of their first insertion; storing under a
  key that is present replaces the value in place.
\<close>

fun dict_setitem :: "('k \<times> 'v) list \<Rightarrow> 'k \<Rightarrow> 'v \<Rightarrow> ('k \<times> 'v) list" where
  "dict_setitem [] k v = [(k, v)]"
| "dict_setitem ((k', v') # d) k v =
     (if k' = k then (k', v) # d else (k', v') # dict_setitem d k v)"

definition dict_values :: "('k \<times> 'v) list \<Rightarrow> 'v list" where
  "dict_values d = map snd d"

text \<open>
  The values that the loop variable \<^verbatim>\<open>shipping\<close> can hold: a relation dictionary or a string.
  Iterating a dictionary yields its keys, iterating a string yields its characters.
  Subscripting a string with a string raises \<^verbatim>\<open>TypeError\<close>.
\<close>

datatype pyvalue = Rel shipping_rel | Str string

fun py_iter :: "pyvalue \<Rightarrow> pyvalue list" where
  "py_iter (Rel r) = [Str ''dest'', Str ''rel'']"
| "py_iter (Str s) = map (\<lambda>c. Str [c]) s"

definition chain_from_iterable :: "pyvalue list \<Rightarrow> pyvalue list" where
  "chain_from_iterable xs = concat (map py_iter xs)"

fun getitem_dest :: "pyvalue \<Rightarrow> py_error + ShippingSkel" where
  "getitem_dest (Rel r) = Inr (dest r)"
| "getitem_dest (Str s) = Inl TypeError"

fun getitem_rel :: "pyvalue \<Rightarrow> py_error + rel_skel" where
  "getitem_rel (Rel r) = Inr (rel r)"
| "getitem_rel (Str s) = Inl TypeError"

section \<open>Shipping module\<close>

subsection \<open>\<^verbatim>\<open>choose_shipping_skel_for_article\<close>\<close>

text \<open>The three results of the function: \<^verbatim>\<open>None\<close>, \<^verbatim>\<open>False\<close> or a relation entry.\<close>

datatype chosen_shipping = PyNone | PyFalse | Shipping shipping_rel

definition cost_key :: "shipping_rel \<Rightarrow> int" where
  "cost_key s = or_zero (shipping_cost (dest s))"

definition choose_shipping_skel_for_article ::
  "shop \<Rightarrow> ArticleAbstractSkel \<Rightarrow> py_error + chosen_shipping" where
  "choose_shipping_skel_for_article env article_skel =
     (case shop_shipping_config article_skel of
        None \<Rightarrow> Inr PyNone
      | Some shipping_config_skel \<Rightarrow>
          (case shipping shipping_config_skel of
             None \<Rightarrow> Inl TypeError
           | Some candidates \<Rightarrow>
               (let applicable_shippings =
                      filter (\<lambda>s. fst (is_applicable env (dest s) (rel s) (ForArticle article_skel)))
                        candidates
                in if applicable_shippings = [] then Inr PyFalse
                   else (case py_min (\<lambda>s. Inr (cost_key s)) applicable_shippings of
                           Inl e \<Rightarrow> Inl e
                         | Inr cheapest_shipping \<Rightarrow> Inr (Shipping cheapest_shipping)))))"

subsection \<open>\<^verbatim>\<open>get_shipping_skels_for_cart\<close>\<close>

text \<open>
  One pass of the inner \<^verbatim>\<open>for\<close> loop over the children of a node: a sub-cart is appended
  to the queue, a leaf whose article has a configuration adds that configuration.
\<close>

fun visit_child ::
  "db_key list \<times> ShippingConfigSkel list \<Rightarrow> cart_child \<Rightarrow> db_key list \<times> ShippingConfigSkel list" where
  "visit_child (node_queue, all_shipping_configs) (Node k) =
     (node_queue @ [k], all_shipping_configs)"
| "visit_child (node_queue, all_shipping_configs) (Leaf article_skel) =
     (case shop_shipping_config article_skel of
        None \<Rightarrow> (node_queue, all_shipping_configs)
      | Some sc \<Rightarrow> (node_queue, all_shipping_configs @ [sc]))"

text \<open>
  The \<^verbatim>\<open>while node_queue\<close> loop: \<^verbatim>\<open>pop()\<close> takes the key at the right end of the deque. The
  children come from outside, so the walk need not end; \<open>None\<close> stands for a walk that
  never returns.
\<close>

partial_function (option) walk_cart_tree ::
  "(db_key \<Rightarrow> cart_child list) \<Rightarrow> db_key list \<Rightarrow> ShippingConfigSkel list
     \<Rightarrow> ShippingConfigSkel list option" where
  [code]: "walk_cart_tree children node_queue all_shipping_configs =
     (if node_queue = [] then Some all_shipping_configs
      else (let r = foldl visit_child (butlast node_queue, all_shipping_configs)
                      (children (last node_queue))
            in walk_cart_tree children (fst r) (snd r)))"

text \<open>
  The elimination of duplicates:
  \<^verbatim>\<open>list(({sc["key"]: sc for sc in all_shipping_configs}).values())\<close>.
\<close>

definition deduplicate :: "ShippingConfigSkel list \<Rightarrow> ShippingConfigSkel list" where
  "deduplicate all_shipping_configs =
     dict_values (foldl (\<lambda>d sc. dict_setitem d (config_key sc) sc) [] all_shipping_configs)"

text \<open>\<^verbatim>\<open>shipping_config_skel["shipping"] or []\<close>.\<close>

definition shipping_or_empty :: "ShippingConfigSkel \<Rightarrow> shipping_rel list" where
  "shipping_or_empty sc = (case shipping sc of None \<Rightarrow> [] | Some l \<Rightarrow> if l = [] then [] else l)"

text \<open>
  The function takes a key or a loaded skeleton. With a skeleton its key is used; without one
  the node is loaded (the key defaulting to the session's cart) and a missing node raises
  \<^verbatim>\<open>NotFound\<close>.
\<close>

definition get_shipping_skels_for_cart ::
  "shop \<Rightarrow> db_key option \<Rightarrow> CartNodeSkel option \<Rightarrow> (py_error + shipping_rel list) option" where
  "get_shipping_skels_for_cart env cart_key cart_skel =
     (let loaded =
            (case cart_skel of
               None \<Rightarrow>
                 (let cart_key = (if cart_key = None then current_session_cart_key env else cart_key)
                  in case fromDB (cart_nodes env) cart_key of
                       None \<Rightarrow> Inl NotFound
                     | Some skel \<Rightarrow> Inr (node_key skel))
             | Some skel \<Rightarrow> Inr (node_key skel))
      in case loaded of
           Inl e \<Rightarrow> Some (Inl e)
         | Inr cart_key \<Rightarrow>
             (case walk_cart_tree (get_children env) [cart_key] [] of
                None \<Rightarrow> None
              | Some all_shipping_configs \<Rightarrow>
                  (let all_shipping_configs = deduplicate all_shipping_configs
                   in if all_shipping_configs = [] then Some (Inr [])
                      else Some (Inr (concat (map shipping_or_empty all_shipping_configs))))))"

subsection \<open>\<^verbatim>\<open>get_available_shipping_skels_for_cart\<close>\<close>

text \<open>
  The loop over \<^verbatim>\<open>all_shipping\<close>: each item (the loop variable \<^verbatim>\<open>shipping\<close>) is subscripted
  with \<^verbatim>\<open>"dest"\<close> and with \<^verbatim>\<open>"rel"\<close>, the predicate is asked about the whole cart, and an
  applicable item is appended.
\<close>

fun collect_applicable ::
  "shop \<Rightarrow> CartNodeSkel \<Rightarrow> pyvalue list \<Rightarrow> pyvalue list \<Rightarrow> py_error + pyvalue list" where
  "collect_applicable env cart_skel [] applicable_shippings = Inr applicable_shippings"
| "collect_applicable env cart_skel (item # rest) applicable_shippings =
     (case getitem_dest item of
        Inl e \<Rightarrow> Inl e
      | Inr d \<Rightarrow>
          (case getitem_rel item of
             Inl e \<Rightarrow> Inl e
           | Inr r \<Rightarrow>
               if fst (is_applicable env d r (ForCart cart_skel))
               then collect_applicable env cart_skel rest (applicable_shippings @ [item])
               else collect_applicable env cart_skel rest applicable_shippings))"

text \<open>
  The function loads the cart, takes the list that \<^verbatim>\<open>get_shipping_skels_for_cart\<close> returns
  for it, and passes that list through \<^verbatim>\<open>itertools.chain.from_iterable\<close> before the loop.
\<close>

definition get_available_shipping_skels_for_cart ::
  "shop \<Rightarrow> db_key option \<Rightarrow> (py_error + pyvalue list) option" where
  "get_available_shipping_skels_for_cart env cart_key =
     (let cart_key = (if cart_key = None then current_session_cart_key env else cart_key)
      in case fromDB (cart_nodes env) cart_key of
           None \<Rightarrow> Some (Inl NotFound)
         | Some cart_skel \<Rightarrow>
             (case get_shipping_skels_for_cart env None (Some cart_skel) of
                None \<Rightarrow> None
              | Some (Inl e) \<Rightarrow> Some (Inl e)
              | Some (Inr shippings) \<Rightarrow>
                  (let all_shipping = chain_from_iterable (map Rel shippings)
                   in case collect_applicable env cart_skel all_shipping [] of
                        Inl e \<Rightarrow> Some (Inl e)
                      | Inr applicable_shippings \<Rightarrow>
                          if applicable_shippings = [] then Some (Inr [])
                          else Some (Inr applicable_shippings))))"

subsection \<open>\<^verbatim>\<open>set_shipping_to_cart\<close>\<close>

text \<open>
  The call \<^verbatim>\<open>shop.cart.cart_update(cart_key, shipping_key=...)\<close> that the function returns
  with: the cart key and the shipping key it is given.
\<close>

datatype cart_call = Cart_update "db_key option" db_key

text \<open>The key of \<^verbatim>\<open>min\<close>: \<^verbatim>\<open>shipping["dest"]["shipping_cost"] or 0\<close>.\<close>

definition cost_of_value :: "pyvalue \<Rightarrow> py_error + int" where
  "cost_of_value item =
     (case getitem_dest item of Inl e \<Rightarrow> Inl e | Inr d \<Rightarrow> Inr (or_zero (shipping_cost d)))"

text \<open>
  The \<^verbatim>\<open>for ... else\<close> loop for a given key: the first entry with that key ends the function
  with the update, and the exhausted loop raises \<^verbatim>\<open>NotFound\<close>.
\<close>

fun find_shipping :: "db_key option \<Rightarrow> db_key \<Rightarrow> pyvalue list \<Rightarrow> py_error + cart_call" where
  "find_shipping cart_key k [] = Inl NotFound"
| "find_shipping cart_key k (item # rest) =
     (case getitem_dest item of
        Inl e \<Rightarrow> Inl e
      | Inr d \<Rightarrow>
          if shipping_key d = k then Inr (Cart_update cart_key k)
          else find_shipping cart_key k rest)"

text \<open>
  For an empty list of applicable shippings the code builds a \<^verbatim>\<open>NotFound\<close> object without
  raising it, so that statement has no effect and the model has no branch for it.
\<close>

definition set_shipping_to_cart ::
  "shop \<Rightarrow> db_key option \<Rightarrow> db_key option \<Rightarrow> (py_error + cart_call) option" where
  "set_shipping_to_cart env cart_key shipping_key_arg =
     (let cart_key = (if cart_key = None then current_session_cart_key env else cart_key)
      in case get_available_shipping_skels_for_cart env cart_key of
           None \<Rightarrow> None
         | Some (Inl e) \<Rightarrow> Some (Inl e)
         | Some (Inr applicable_shippings) \<Rightarrow>
             (case fromDB (cart_nodes env) cart_key of
                None \<Rightarrow> Some (Inl NotFound)
              | Some cart_skel \<Rightarrow>
                  (case shipping_key_arg of
                     None \<Rightarrow>
                       (case py_min cost_of_value applicable_shippings of
                          Inl e \<Rightarrow> Some (Inl e)
                        | Inr cheapest_shipping \<Rightarrow>
                            (case getitem_dest cheapest_shipping of
                               Inl e \<Rightarrow> Some (Inl e)
                             | Inr d \<Rightarrow> Some (Inr (Cart_update cart_key (shipping_key d)))))
                   | Some k \<Rightarrow> Some (find_shipping cart_key k applicable_shippings))))"

section \<open>Order module\<close>

text \<open>
  An optional argument of \<^verbatim>\<open>order_add\<close> is the sentinel (the caller left it out) or a
  value.
\<close>

datatype 'a arg = Sentinel | Given 'a

text \<open>What a caller can pass where a key is expected: a key, \<^verbatim>\<open>None\<close> or anything else.\<close>

datatype key_value = Key db_key | NoneValue | NotAKey

text \<open>
  The body of a \<^verbatim>\<open>JsonResponse\<close> and the response with its status code; a response that
  the code builds without a status code has the status 200.
\<close>

datatype json_body = Errors "string list" | Skel OrderSkel

datatype response = JsonResponse json_body nat

text \<open>The skeleton that \<^verbatim>\<open>addSkel()\<close> returns: every bone is unset.\<close>

definition addSkel :: OrderSkel where
  "addSkel =
     \<lparr>cart = None, total = 0, payment_provider = None, billing_address = None, email = None,
      customer = None, state_ordered = False, state_paid = False, state_rts = False,
      is_ordered = False, order_uid = None\<rparr>"

text \<open>Truth value of a string bone: \<^verbatim>\<open>None\<close> and the empty string are false.\<close>

definition truthy :: "string option \<Rightarrow> bool" where
  "truthy v = (case v of None \<Rightarrow> False | Some s \<Rightarrow> s \<noteq> [])"

text \<open>
  Modelled from the spec: \<^verbatim>\<open>shop.cart.detach_session_cart\<close> belongs to the cart module, whose
  code is not part of the two modules modelled here; it severs the association between the
  session and its cart without deleting cart data.
\<close>

definition detach_session_cart :: "shop \<Rightarrow> shop" where
  "detach_session_cart env = env\<lparr>current_session_cart_key := None\<rparr>"

fun get_payment_provider_by_name ::
  "PaymentProviderAbstract list \<Rightarrow> string \<Rightarrow> py_error + PaymentProviderAbstract" where
  "get_payment_provider_by_name [] payment_provider_name = Inl LookupError"
| "get_payment_provider_by_name (pp # pps) payment_provider_name =
     (if payment_provider_name = pp_name pp then Inr pp
      else get_payment_provider_by_name pps payment_provider_name)"

subsection \<open>\<^verbatim>\<open>order_add\<close>\<close>

text \<open>
  The billing address branch: \<^verbatim>\<open>None\<close> clears the bone; a key is resolved by
  \<^verbatim>\<open>setBoneValue\<close>, which leaves the bone unset when no address is stored under the key, so
  that the subscript that follows raises \<^verbatim>\<open>TypeError\<close>; an address of another type than
  \<^verbatim>\<open>BILLING\<close> raises the invalid-argument exception with the field name and the description
  that the code passes.
\<close>

definition set_billing_address :: "shop \<Rightarrow> key_value arg \<Rightarrow> OrderSkel \<Rightarrow> py_error + OrderSkel" where
  "set_billing_address env billing_address_key skel =
     (case billing_address_key of
        Sentinel \<Rightarrow> Inr skel
      | Given NoneValue \<Rightarrow> Inr (skel\<lparr>billing_address := None\<rparr>)
      | Given NotAKey \<Rightarrow> Inl TypeError
      | Given (Key k) \<Rightarrow>
          (case addresses env k of
             None \<Rightarrow> Inl TypeError
           | Some address \<Rightarrow>
               if address_type address \<noteq> BILLING
               then Inl (InvalidArgumentException ''shipping_address''
                           ''Address is not of type billing.'')
               else Inr (skel\<lparr>billing_address := Some address\<rparr>)))"

text \<open>The defaults from the signed-in user.\<close>

definition set_user_defaults :: "shop \<Rightarrow> OrderSkel \<Rightarrow> OrderSkel" where
  "set_user_defaults env skel =
     (case current_user env of
        None \<Rightarrow> skel
      | Some u \<Rightarrow>
          skel\<lparr>email := Some (user_name u),
               customer := setBoneValue_customer env (Some (user_key u)) (customer skel)\<rparr>)"

text \<open>The assignments that follow, each made only for an argument that was passed.\<close>

definition set_email :: "string option arg \<Rightarrow> OrderSkel \<Rightarrow> OrderSkel" where
  "set_email email_arg skel = (case email_arg of Sentinel \<Rightarrow> skel | Given v \<Rightarrow> skel\<lparr>email := v\<rparr>)"

definition set_customer :: "shop \<Rightarrow> key_value arg \<Rightarrow> OrderSkel \<Rightarrow> OrderSkel" where
  "set_customer env customer_key skel =
     (case customer_key of
        Given (Key k) \<Rightarrow> skel\<lparr>customer := setBoneValue_customer env (Some k) (customer skel)\<rparr>
      | Given NoneValue \<Rightarrow> skel\<lparr>customer := setBoneValue_customer env None (customer skel)\<rparr>
      | _ \<Rightarrow> skel)"

definition set_states :: "bool arg \<Rightarrow> bool arg \<Rightarrow> bool arg \<Rightarrow> OrderSkel \<Rightarrow> OrderSkel" where
  "set_states state_ordered_arg state_paid_arg state_rts_arg skel =
     (let skel = (case state_ordered_arg of Sentinel \<Rightarrow> skel | Given b \<Rightarrow> skel\<lparr>state_ordered := b\<rparr>);
          skel = (case state_paid_arg of Sentinel \<Rightarrow> skel | Given b \<Rightarrow> skel\<lparr>state_paid := b\<rparr>)
      in (case state_rts_arg of Sentinel \<Rightarrow> skel | Given b \<Rightarrow> skel\<lparr>state_rts := b\<rparr>))"

text \<open>
  \<^verbatim>\<open>order_add\<close>. The last argument is the key under which the datastore stores the new
  order. The result is the exception or the stored skeleton, together with the state after the
  call; a call that raises leaves the state as it was.
\<close>

definition order_add ::
  "shop \<Rightarrow> key_value \<Rightarrow> string option arg \<Rightarrow> key_value arg \<Rightarrow> string option arg \<Rightarrow> key_value arg
     \<Rightarrow> bool arg \<Rightarrow> bool arg \<Rightarrow> bool arg \<Rightarrow> db_key \<Rightarrow> (py_error + OrderSkel) \<times> shop" where
  "order_add env cart_key payment_provider_arg billing_address_key email_arg customer_key
     state_ordered_arg state_paid_arg state_rts_arg new_key =
     (case cart_key of
        NoneValue \<Rightarrow> (Inl TypeError, env)
      | NotAKey \<Rightarrow> (Inl TypeError, env)
      | Key ck \<Rightarrow>
          if billing_address_key = Given NotAKey then (Inl TypeError, env)
          else if customer_key = Given NotAKey then (Inl TypeError, env)
          else if \<not> is_valid_node env ck True then (Inl ValueError, env)
          else (case fromDB (cart_nodes env) (Some ck) of
                  None \<Rightarrow> (Inl AssertionError, env)
                | Some cart_skel \<Rightarrow>
                    (let skel = addSkel\<lparr>cart := Some ck, total := node_total cart_skel\<rparr>;
                         skel = (case payment_provider_arg of
                                   Sentinel \<Rightarrow> skel
                                 | Given v \<Rightarrow> skel\<lparr>payment_provider := v\<rparr>)
                     in case set_billing_address env billing_address_key skel of
                          Inl e \<Rightarrow> (Inl e, env)
                        | Inr skel \<Rightarrow>
                            (let skel = set_user_defaults env skel;
                                 skel = set_email email_arg skel;
                                 skel = set_customer env customer_key skel;
                                 skel = set_states state_ordered_arg state_paid_arg state_rts_arg skel;
                                 env = env\<lparr>orders := (orders env)(new_key \<mapsto> skel)\<rparr>;
                                 env = (if Some ck = current_session_cart_key env
                                        then detach_session_cart env else env)
                             in (Inr skel, env)))))"

subsection \<open>\<^verbatim>\<open>checkout_start\<close>\<close>

definition can_checkout :: "shop \<Rightarrow> OrderSkel \<Rightarrow> py_error + string list" where
  "can_checkout env order_skel =
     (let errors = [];
          errors = (if cart order_skel = None then errors @ [''missing cart''] else errors)
      in if \<not> truthy (payment_provider order_skel)
         then Inr (errors @ [''missing payment_provider''])
         else (case get_payment_provider_by_name (payment_providers env)
                      (case payment_provider order_skel of Some n \<Rightarrow> n | None \<Rightarrow> [])
               of Inl e \<Rightarrow> Inl e
                | Inr pp \<Rightarrow>
                    (let pp_errors = pp_can_checkout pp order_skel
                     in if pp_errors \<noteq> [] then Inr (errors @ pp_errors) else Inr errors)))"

text \<open>\<^verbatim>\<open>freeze_order\<close> returns the skeleton it is given; its body holds two notes of work to do.\<close>

definition freeze_order :: "OrderSkel \<Rightarrow> OrderSkel" where
  "freeze_order order_skel = order_skel"

text \<open>\<^verbatim>\<open>s.strip("-")\<close>.\<close>

definition strip_dash :: "string \<Rightarrow> string" where
  "strip_dash s =
     rev (dropWhile (\<lambda>c. c = CHR ''-'') (rev (dropWhile (\<lambda>c. c = CHR ''-'') s)))"

text \<open>
  \<^verbatim>\<open>assign_uid\<close>: the first argument is the text of \<^verbatim>\<open>str(time.time())\<close>. The dots are
  removed, a dash is put before every character whose index is a multiple of four, and the
  dashes at both ends are stripped.
\<close>

definition assign_uid :: "string \<Rightarrow> OrderSkel \<Rightarrow> OrderSkel" where
  "assign_uid now order_skel =
     order_skel\<lparr>order_uid :=
       Some (strip_dash (concat (map (\<lambda>(i, c). if i mod 4 = 0 then [CHR ''-'', c] else [c])
                                   (enumerate 0 (filter (\<lambda>c. c \<noteq> CHR ''.'') now)))))\<rparr>"

text \<open>
  \<^verbatim>\<open>checkout_start\<close>, for the key that \<^verbatim>\<open>_normalize_external_key\<close> returned and the text of
  the clock.
\<close>

definition checkout_start :: "shop \<Rightarrow> key_value \<Rightarrow> string \<Rightarrow> (py_error + response) \<times> shop" where
  "checkout_start env order_key now =
     (case order_key of
        NoneValue \<Rightarrow> (Inl TypeError, env)
      | NotAKey \<Rightarrow> (Inl TypeError, env)
      | Key k \<Rightarrow>
          (case orders env k of
             None \<Rightarrow> (Inl NotFound, env)
           | Some skel \<Rightarrow>
               (case can_checkout env skel of
                  Inl e \<Rightarrow> (Inl e, env)
                | Inr errors \<Rightarrow>
                    if errors \<noteq> [] then (Inr (JsonResponse (Errors errors) 400), env)
                    else (let skel = freeze_order skel;
                              skel = assign_uid now skel
                          in (Inr (JsonResponse (Skel skel) 200),
                              env\<lparr>orders := (orders env)(k \<mapsto> skel)\<rparr>)))))"

subsection \<open>\<^verbatim>\<open>checkout_order\<close>\<close>

definition can_order :: "shop \<Rightarrow> OrderSkel \<Rightarrow> py_error + string list" where
  "can_order env order_skel =
     (let errors = [];
          errors = (if is_ordered order_skel then errors @ [''already is_ordered''] else errors);
          errors = (if cart order_skel = None then errors @ [''missing cart''] else errors)
      in if \<not> truthy (payment_provider order_skel)
         then Inr (errors @ [''missing payment_provider''])
         else (case get_payment_provider_by_name (payment_providers env)
                      (case payment_provider order_skel of Some n \<Rightarrow> n | None \<Rightarrow> [])
               of Inl e \<Rightarrow> Inl e
                | Inr pp \<Rightarrow>
                    (let pp_errors = pp_can_order pp order_skel
                     in if pp_errors \<noteq> [] then Inr (errors @ pp_errors) else Inr errors)))"

definition checkout_order :: "shop \<Rightarrow> key_value \<Rightarrow> (py_error + response) \<times> shop" where
  "checkout_order env order_key =
     (case order_key of
        NoneValue \<Rightarrow> (Inl TypeError, env)
      | NotAKey \<Rightarrow> (Inl TypeError, env)
      | Key k \<Rightarrow>
          (case orders env k of
             None \<Rightarrow> (Inl NotFound, env)
           | Some skel \<Rightarrow>
               (case can_order env skel of
                  Inl e \<Rightarrow> (Inl e, env)
                | Inr errors \<Rightarrow>
                    if errors \<noteq> [] then (Inr (JsonResponse (Errors errors) 400), env)
                    else (let skel = skel\<lparr>is_ordered := True\<rparr>
                          in (Inr (JsonResponse (Skel skel) 200),
                              env\<lparr>orders := (orders env)(k \<mapsto> skel)\<rparr>)))))"

section \<open>Example data\<close>

text \<open>A shop with an empty datastore, no session cart, no user and no payment provider.\<close>

definition empty_shop :: shop where
  "empty_shop =
     \<lparr>get_children = (\<lambda>k. []),
      is_applicable = (\<lambda>d r subject. (True, [])),
      cart_nodes = Map.empty,
      current_session_cart_key = None,
      is_valid_node = (\<lambda>k root_node. False),
      addresses = Map.empty,
      current_user = None,
      setBoneValue_customer = (\<lambda>v old. v),
      payment_providers = [],
      orders = Map.empty\<rparr>"

text \<open>
  The cart of the spec's scenario: cart 1 has two leaf items, both referencing configuration
  10 with the options of cost 5 (key 100, applicable) and of cost 3 (key 101, inapplicable).
\<close>

definition option_5 :: shipping_rel where
  "option_5 = \<lparr>dest = \<lparr>shipping_key = 100, shipping_cost = Some 5\<rparr>, rel = []\<rparr>"

definition option_3 :: shipping_rel where
  "option_3 = \<lparr>dest = \<lparr>shipping_key = 101, shipping_cost = Some 3\<rparr>, rel = []\<rparr>"

definition config_10 :: ShippingConfigSkel where
  "config_10 = \<lparr>config_key = 10, shipping = Some [option_5, option_3]\<rparr>"

definition scenario_cart :: CartNodeSkel where
  "scenario_cart = \<lparr>node_key = 1, node_total = 0\<rparr>"

definition scenario_shop :: shop where
  "scenario_shop =
     empty_shop
       \<lparr>get_children :=
          (\<lambda>k. if k = 1
                then [Leaf \<lparr>article_key = 20, shop_shipping_config = Some config_10\<rparr>,
                      Leaf \<lparr>article_key = 21, shop_shipping_config = Some config_10\<rparr>]
                else []),
        is_applicable := (\<lambda>d r subject. (shipping_cost d = Some 5, [])),
        cart_nodes := [1 \<mapsto> scenario_cart]\<rparr>"


definition config_11 :: ShippingConfigSkel where
  "config_11 = \<lparr>config_key = 11, shipping = None\<rparr>"


text \<open>
  Three articles: one without a configuration, one whose only option is inapplicable, and one
  with an inapplicable option of cost 1 followed by three applicable options, of cost 7, of
  no cost and of cost 0.
\<close>

definition option_1 :: shipping_rel where
  "option_1 = \<lparr>dest = \<lparr>shipping_key = 102, shipping_cost = Some 1\<rparr>, rel = []\<rparr>"

definition option_7 :: shipping_rel where
  "option_7 = \<lparr>dest = \<lparr>shipping_key = 103, shipping_cost = Some 7\<rparr>, rel = []\<rparr>"

definition option_free :: shipping_rel where
  "option_free = \<lparr>dest = \<lparr>shipping_key = 104, shipping_cost = None\<rparr>, rel = []\<rparr>"

definition option_0 :: shipping_rel where
  "option_0 = \<lparr>dest = \<lparr>shipping_key = 105, shipping_cost = Some 0\<rparr>, rel = []\<rparr>"

definition article_plain :: ArticleAbstractSkel where
  "article_plain = \<lparr>article_key = 30, shop_shipping_config = None\<rparr>"

definition article_stuck :: ArticleAbstractSkel where
  "article_stuck =
     \<lparr>article_key = 31,
      shop_shipping_config = Some \<lparr>config_key = 12, shipping = Some [option_1]\<rparr>\<rparr>"

definition article_tie :: ArticleAbstractSkel where
  "article_tie =
     \<lparr>article_key = 32,
      shop_shipping_config =
        Some \<lparr>config_key = 13, shipping = Some [option_1, option_7, option_free, option_0]\<rparr>\<rparr>"

definition article_shop :: shop where
  "article_shop = empty_shop\<lparr>is_applicable := (\<lambda>d r subject. (shipping_key d \<noteq> 102, []))\<rparr>"

text \<open>
  An article whose configuration 11 has no list in its \<^verbatim>\<open>shipping\<close> bone.
\<close>

definition article_unset :: ArticleAbstractSkel where
  "article_unset = \<lparr>article_key = 33, shop_shipping_config = Some config_11\<rparr>"

text \<open>
  A cart 1 whose one leaf is the article with the single inapplicable option: the cart has a
  candidate option, and no option is applicable to it.
\<close>

definition stuck_shop :: shop where
  "stuck_shop =
     article_shop
       \<lparr>get_children := (\<lambda>k. if k = 1 then [Leaf article_stuck] else []),
        cart_nodes := [1 \<mapsto> scenario_cart]\<rparr>"

text \<open>A cart without children: no shipping is applicable to it.\<close>

definition bare_shop :: shop where
  "bare_shop = empty_shop\<lparr>cart_nodes := [1 \<mapsto> scenario_cart]\<rparr>"

text \<open>A payment provider that accepts every order.\<close>

definition invoice :: PaymentProviderAbstract where
  "invoice = \<lparr>pp_name = ''invoice'', pp_can_checkout = (\<lambda>skel. []), pp_can_order = (\<lambda>skel. [])\<rparr>"

text \<open>
  An order 7 of cart 1 that has been finalized, in a shop where the payment provider of the
  order is not registered.
\<close>

definition finalized_order :: OrderSkel where
  "finalized_order = addSkel\<lparr>cart := Some 1, payment_provider := Some ''invoice'', is_ordered := True\<rparr>"

definition unregistered_shop :: shop where
  "unregistered_shop = empty_shop\<lparr>orders := [7 \<mapsto> finalized_order]\<rparr>"

text \<open>
  An order 7 without a cart whose payment provider is not registered in the shop.
\<close>

definition cartless_order :: OrderSkel where
  "cartless_order = addSkel\<lparr>payment_provider := Some ''invoice''\<rparr>"

definition cartless_shop :: shop where
  "cartless_shop = empty_shop\<lparr>orders := [7 \<mapsto> cartless_order]\<rparr>"

text \<open>An order 7 of cart 1 that is ready to be finalized.\<close>

definition ready_order :: OrderSkel where
  "ready_order = addSkel\<lparr>cart := Some 1, payment_provider := Some ''invoice''\<rparr>"

definition ready_shop :: shop where
  "ready_shop = empty_shop\<lparr>payment_providers := [invoice], orders := [7 \<mapsto> ready_order]\<rparr>"

text \<open>
  A shop in which cart 1 is a valid root node with a total of 20, and in which address 5 is a
  shipping address.
\<close>

definition counter_shop :: shop where
  "counter_shop =
     empty_shop
       \<lparr>cart_nodes := [1 \<mapsto> \<lparr>node_key = 1, node_total = 20\<rparr>],
        is_valid_node := (\<lambda>k root_node. k = 1),
        addresses := [5 \<mapsto> \<lparr>address_type = SHIPPING\<rparr>],
        payment_providers := [invoice]\<rparr>"

text \<open>
  An order 7 that was added when cart 1 had a total of 10; the cart has a total of 20 by
  now.
\<close>

definition stale_order :: OrderSkel where
  "stale_order = addSkel\<lparr>cart := Some 1, total := 10, payment_provider := Some ''invoice''\<rparr>"

definition stale_shop :: shop where
  "stale_shop = counter_shop\<lparr>orders := [7 \<mapsto> stale_order]\<rparr>"

section \<open>Properties of the Python primitives\<close>

lemma min_loop_first_minimum:
  "(\<forall>x\<in>set before. g best < g x) \<Longrightarrow> (\<forall>x\<in>set seen. g best \<le> g x) \<Longrightarrow>
   \<exists>pre r post. before @ best # seen @ xs = pre @ r # post
      \<and> min_loop (\<lambda>s. Inr (g s)) best (g best) xs = Inr r
      \<and> (\<forall>x\<in>set pre. g r < g x) \<and> (\<forall>x\<in>set post. g r \<le> g x)"
proof (induction xs arbitrary: before best seen)
  case Nil
  then show ?case by auto
next
  case (Cons x xs)
  show ?case
  proof (cases "g x < g best")
    case True
    have a: "\<forall>y\<in>set (before @ best # seen). g x < g y"
      using True Cons.prems by fastforce
    have b: "\<forall>y\<in>set ([]::'a list). g x \<le> g y" by simp
    from Cons.IH[OF a b] True show ?thesis by simp
  next
    case False
    have b: "\<forall>y\<in>set (seen @ [x]). g best \<le> g y"
      using False Cons.prems(2) by auto
    from Cons.IH[OF Cons.prems(1) b] False show ?thesis by simp
  qed
qed

lemma py_min_first_minimum:
  assumes "xs \<noteq> []"
  shows "\<exists>pre r post. xs = pre @ r # post \<and> py_min (\<lambda>s. Inr (g s)) xs = Inr r
      \<and> (\<forall>x\<in>set pre. g r < g x) \<and> (\<forall>x\<in>set post. g r \<le> g x)"
proof -
  from assms obtain y ys where xs: "xs = y # ys" by (cases xs) auto
  have "\<exists>pre r post. [] @ y # [] @ ys = pre @ r # post
      \<and> min_loop (\<lambda>s. Inr (g s)) y (g y) ys = Inr r
      \<and> (\<forall>x\<in>set pre. g r < g x) \<and> (\<forall>x\<in>set post. g r \<le> g x)"
    by (rule min_loop_first_minimum) simp_all
  then show ?thesis using xs by simp
qed








lemma find_rev_None: "find P (rev xs) = None \<longleftrightarrow> (\<forall>x\<in>set xs. \<not> P x)"
  by (auto simp: find_None_iff)








section \<open>Shipping resolution for one article\<close>

text \<open>
  The results of \<^verbatim>\<open>choose_shipping_skel_for_article\<close> when the \<^verbatim>\<open>shipping\<close> bone of the
  configuration holds a list: three results that a caller can tell apart. An article without
  a shipping configuration gives \<^verbatim>\<open>None\<close>. An article whose configuration lists candidate
  options of which none is applicable gives \<^verbatim>\<open>False\<close>.
  Otherwise the result is an applicable option of minimum cost, where a missing cost counts
  as zero, and among the applicable options of that cost it is the one met first: every
  applicable option before it costs strictly more, every one after it costs at least as much.
\<close>

theorem choose_shipping_skel_for_article_results:
  "(shop_shipping_config article_skel = None \<longrightarrow>
      choose_shipping_skel_for_article env article_skel = Inr PyNone)
   \<and> (\<forall>config candidates.
        shop_shipping_config article_skel = Some config
        \<and> shipping config = Some (candidates :: shipping_rel list)
        \<and> (\<forall>s\<in>set candidates. \<not> fst (is_applicable env (dest s) (rel s) (ForArticle article_skel)))
        \<longrightarrow> choose_shipping_skel_for_article env article_skel = Inr PyFalse)
   \<and> (\<forall>config candidates.
        shop_shipping_config article_skel = Some config
        \<and> shipping config = Some (candidates :: shipping_rel list)
        \<and> (\<exists>s\<in>set candidates. fst (is_applicable env (dest s) (rel s) (ForArticle article_skel)))
        \<longrightarrow> (\<exists>pre cheapest post.
               filter (\<lambda>s. fst (is_applicable env (dest s) (rel s) (ForArticle article_skel)))
                 candidates = pre @ cheapest # post
               \<and> choose_shipping_skel_for_article env article_skel = Inr (Shipping cheapest)
               \<and> (\<forall>s\<in>set pre. cost_key cheapest < cost_key s)
               \<and> (\<forall>s\<in>set post. cost_key cheapest \<le> cost_key s)))
   \<and> (\<forall>s. cost_key s = (case shipping_cost (dest s) of None \<Rightarrow> 0 | Some c \<Rightarrow> c))
   \<and> PyNone \<noteq> PyFalse \<and> (\<forall>s. Shipping s \<noteq> PyNone \<and> Shipping s \<noteq> PyFalse)"
proof (intro conjI impI allI)
  assume "shop_shipping_config article_skel = None"
  then show "choose_shipping_skel_for_article env article_skel = Inr PyNone"
    by (simp add: choose_shipping_skel_for_article_def)
next
  fix config and candidates :: "shipping_rel list"
  assume "shop_shipping_config article_skel = Some config
        \<and> shipping config = Some candidates
        \<and> (\<forall>s\<in>set candidates. \<not> fst (is_applicable env (dest s) (rel s) (ForArticle article_skel)))"
  then show "choose_shipping_skel_for_article env article_skel = Inr PyFalse"
    by (simp add: choose_shipping_skel_for_article_def)
next
  fix config and candidates :: "shipping_rel list"
  let ?app = "filter (\<lambda>s. fst (is_applicable env (dest s) (rel s) (ForArticle article_skel))) candidates"
  assume c: "shop_shipping_config article_skel = Some config
        \<and> shipping config = Some candidates
        \<and> (\<exists>s\<in>set candidates. fst (is_applicable env (dest s) (rel s) (ForArticle article_skel)))"
  then have ne: "?app \<noteq> []" by (auto simp: filter_empty_conv)
  from py_min_first_minimum[OF ne, of cost_key] obtain pre r post where
    r: "?app = pre @ r # post" "py_min (\<lambda>s. Inr (cost_key s)) ?app = Inr r"
       "\<forall>x\<in>set pre. cost_key r < cost_key x" "\<forall>x\<in>set post. cost_key r \<le> cost_key x"
    by blast
  have "choose_shipping_skel_for_article env article_skel = Inr (Shipping r)"
    using c ne r(2) by (simp add: choose_shipping_skel_for_article_def Let_def)
  with r show "\<exists>pre cheapest post. ?app = pre @ cheapest # post
               \<and> choose_shipping_skel_for_article env article_skel = Inr (Shipping cheapest)
               \<and> (\<forall>s\<in>set pre. cost_key cheapest < cost_key s)
               \<and> (\<forall>s\<in>set post. cost_key cheapest \<le> cost_key s)"
    by blast
next
  fix s
  show "cost_key s = (case shipping_cost (dest s) of None \<Rightarrow> 0 | Some c \<Rightarrow> c)"
    by (simp add: cost_key_def or_zero_def split: option.splits)
qed simp_all

text \<open>
  The three cases on the example articles: no configuration; one inapplicable option; and
  four options of which the second to fourth are applicable, where the option without a cost
  is chosen before the later option of cost 0 and the inapplicable option of cost 1 is left
  out.
\<close>

theorem choose_shipping_skel_for_article_results_witness:
  "choose_shipping_skel_for_article article_shop article_plain = Inr PyNone
   \<and> choose_shipping_skel_for_article article_shop article_stuck = Inr PyFalse
   \<and> choose_shipping_skel_for_article article_shop article_tie = Inr (Shipping option_free)"
proof -
  have plain: "shop_shipping_config article_plain = None"
    by (simp add: article_plain_def)
  have stuck: "shop_shipping_config article_stuck = Some \<lparr>config_key = 12, shipping = Some [option_1]\<rparr>
      \<and> shipping \<lparr>config_key = 12, shipping = Some [option_1]\<rparr> = Some [option_1]
      \<and> (\<forall>s\<in>set [option_1].
            \<not> fst (is_applicable article_shop (dest s) (rel s) (ForArticle article_stuck)))"
    by (simp add: article_stuck_def article_shop_def empty_shop_def option_1_def)
  have tie: "shop_shipping_config article_tie
        = Some \<lparr>config_key = 13, shipping = Some [option_1, option_7, option_free, option_0]\<rparr>
      \<and> shipping \<lparr>config_key = 13, shipping = Some [option_1, option_7, option_free, option_0]\<rparr>
        = Some [option_1, option_7, option_free, option_0]
      \<and> (\<exists>s\<in>set [option_1, option_7, option_free, option_0].
            fst (is_applicable article_shop (dest s) (rel s) (ForArticle article_tie)))"
    by (simp add: article_tie_def article_shop_def empty_shop_def option_7_def)
  have app: "filter (\<lambda>s. fst (is_applicable article_shop (dest s) (rel s) (ForArticle article_tie)))
               [option_1, option_7, option_free, option_0] = [option_7, option_free, option_0]"
    by (simp add: article_shop_def empty_shop_def option_1_def option_7_def option_free_def
        option_0_def)
  from choose_shipping_skel_for_article_results[of article_plain article_shop] plain
  have one: "choose_shipping_skel_for_article article_shop article_plain = Inr PyNone"
    by blast
  from choose_shipping_skel_for_article_results[of article_stuck article_shop] stuck
  have two: "choose_shipping_skel_for_article article_shop article_stuck = Inr PyFalse"
    by blast
  from choose_shipping_skel_for_article_results[of article_tie article_shop] tie
  obtain pre cheapest post where
    t: "filter (\<lambda>s. fst (is_applicable article_shop (dest s) (rel s) (ForArticle article_tie)))
          [option_1, option_7, option_free, option_0] = pre @ cheapest # post"
       "choose_shipping_skel_for_article article_shop article_tie = Inr (Shipping cheapest)"
       "\<forall>s\<in>set pre. cost_key cheapest < cost_key s"
       "\<forall>s\<in>set post. cost_key cheapest \<le> cost_key s"
    by blast
  have costs: "cost_key option_7 = 7" "cost_key option_free = 0" "cost_key option_0 = 0"
    by (simp_all add: cost_key_def or_zero_def option_7_def option_free_def option_0_def)
  from t(1) app have split: "[option_7, option_free, option_0] = pre @ cheapest # post" by simp
  have "cheapest = option_free"
  proof (cases pre)
    case Nil
    with split have "cheapest = option_7" "post = [option_free, option_0]" by simp_all
    with t(4) costs show ?thesis by simp
  next
    case (Cons a pre')
    with split have a: "a = option_7" "[option_free, option_0] = pre' @ cheapest # post" by simp_all
    show ?thesis
    proof (cases pre')
      case Nil
      with a show ?thesis by simp
    next
      case (Cons b pre'')
      with a have "b = option_free" "[option_0] = pre'' @ cheapest # post" by simp_all
      then have "cheapest = option_0" by (cases pre'') simp_all
      with t(3) \<open>pre = a # pre'\<close> \<open>pre' = b # pre''\<close> \<open>b = option_free\<close> costs show ?thesis by simp
    qed
  qed
  with one two t(2) show ?thesis by simp
qed

text \<open>
  Claim C3. The three results do not cover every article with a configuration. The
  configuration 11 exists and its \<^verbatim>\<open>shipping\<close> bone is \<^verbatim>\<open>None\<close>, so it has no candidate
  option and none that is applicable; \<^verbatim>\<open>get_shipping_skels_for_cart\<close> reads that bone as the
  empty list, by its \<^verbatim>\<open>or []\<close>. \<^verbatim>\<open>choose_shipping_skel_for_article\<close> iterates the bone as it
  is and raises \<^verbatim>\<open>TypeError\<close>, where the claim has the result \<^verbatim>\<open>False\<close>.
\<close>

theorem choose_shipping_skel_for_article_unset_bone:
  "shop_shipping_config article_unset = Some config_11
   \<and> shipping config_11 = None
   \<and> shipping_or_empty config_11 = []
   \<and> choose_shipping_skel_for_article article_shop article_unset = Inl TypeError"
  by (simp add: choose_shipping_skel_for_article_def shipping_or_empty_def article_unset_def
      config_11_def)

section \<open>Shipping resolution for a cart\<close>



text \<open>
  The second flattening turns every relation dictionary into its two keys, and the first
  subscript of the loop fails on a key. So the function raises \<^verbatim>\<open>TypeError\<close> whenever the
  cart has a candidate option, and a list that it returns is empty.
\<close>

lemma collect_applicable_keys:
  "collect_applicable env cart_skel (chain_from_iterable (map Rel (x # xs))) acc = Inl TypeError"
  by (simp add: chain_from_iterable_def)

lemma get_available_shipping_skels_for_cart_candidates:
  assumes "fromDB (cart_nodes env) (if cart_key = None then current_session_cart_key env else cart_key)
             = Some cart_skel"
    and "get_shipping_skels_for_cart env None (Some cart_skel) = Some (Inr (x # xs))"
  shows "get_available_shipping_skels_for_cart env cart_key = Some (Inl TypeError)"
  using assms
  by (simp add: get_available_shipping_skels_for_cart_def Let_def collect_applicable_keys
      del: map_eq_Cons_conv list.map)

lemma get_available_shipping_skels_for_cart_returns_empty:
  assumes "get_available_shipping_skels_for_cart env cart_key = Some (Inr applicable_shippings)"
  shows "applicable_shippings = []"
proof -
  from assms obtain cart_skel shippings where
    g: "get_shipping_skels_for_cart env None (Some cart_skel) = Some (Inr shippings)" and
    c: "collect_applicable env cart_skel (chain_from_iterable (map Rel shippings)) []
          = Inr applicable_shippings"
    by (auto simp: get_available_shipping_skels_for_cart_def Let_def
        split: option.splits sum.splits if_splits)
  show ?thesis
  proof (cases shippings)
    case Nil
    with c show ?thesis by (simp add: chain_from_iterable_def)
  next
    case (Cons x xs)
    with c collect_applicable_keys[of env cart_skel x xs "[]"] show ?thesis by simp
  qed
qed

lemma scenario_candidates:
  "get_shipping_skels_for_cart scenario_shop None (Some scenario_cart)
     = Some (Inr [option_5, option_3])"
  by (simp add: get_shipping_skels_for_cart_def walk_cart_tree.simps scenario_shop_def
      empty_shop_def scenario_cart_def deduplicate_def dict_values_def shipping_or_empty_def
      config_10_def)

lemma scenario_raises:
  "get_available_shipping_skels_for_cart scenario_shop (Some 1) = Some (Inl TypeError)"
proof -
  have "fromDB (cart_nodes scenario_shop) (Some 1) = Some scenario_cart"
    by (simp add: fromDB_def scenario_shop_def empty_shop_def scenario_cart_def)
  then show ?thesis
    using scenario_candidates
    by (simp add: get_available_shipping_skels_for_cart_def chain_from_iterable_def)
qed

text \<open>
  Claim C5. On the cart of the spec's scenario (two leaves referencing configuration 10 with
  an applicable option of cost 5 and an inapplicable option of cost 3)
  \<^verbatim>\<open>get_shipping_skels_for_cart\<close> returns the flat list of the two options, and
  \<^verbatim>\<open>get_available_shipping_skels_for_cart\<close> passes that flat list through
  \<^verbatim>\<open>itertools.chain.from_iterable\<close> once more. The loop then runs over the keys of the
  relation dictionaries, and the subscript \<^verbatim>\<open>shipping["dest"]\<close> on the first of them raises
  \<^verbatim>\<open>TypeError\<close>: the function does not return the applicable option of cost 5.
\<close>

theorem get_available_shipping_skels_for_cart_scenario:
  "get_shipping_skels_for_cart scenario_shop None (Some scenario_cart)
     = Some (Inr [option_5, option_3])
   \<and> fst (is_applicable scenario_shop (dest option_5) (rel option_5) (ForCart scenario_cart))
   \<and> \<not> fst (is_applicable scenario_shop (dest option_3) (rel option_3) (ForCart scenario_cart))
   \<and> chain_from_iterable (map Rel [option_5, option_3])
       = [Str ''dest'', Str ''rel'', Str ''dest'', Str ''rel'']
   \<and> get_available_shipping_skels_for_cart scenario_shop (Some 1) = Some (Inl TypeError)"
proof -
  have c: "chain_from_iterable (map Rel [option_5, option_3])
       = [Str ''dest'', Str ''rel'', Str ''dest'', Str ''rel'']"
    by (simp add: chain_from_iterable_def)
  show ?thesis using scenario_candidates scenario_raises c
    by (simp add: scenario_shop_def empty_shop_def option_5_def option_3_def)
qed

section \<open>Setting the shipping of a cart\<close>

lemma get_available_resolved:
  "get_available_shipping_skels_for_cart env
      (if cart_key = None then current_session_cart_key env else cart_key)
     = get_available_shipping_skels_for_cart env cart_key"
  by (simp add: get_available_shipping_skels_for_cart_def)

lemma get_available_loaded:
  "get_available_shipping_skels_for_cart env cart_key = Some (Inr l) \<Longrightarrow>
     fromDB (cart_nodes env) (if cart_key = None then current_session_cart_key env else cart_key) \<noteq> None"
  by (auto simp: get_available_shipping_skels_for_cart_def Let_def split: option.splits)


text \<open>
  Claim C6. On the cart of the spec's scenario the call with the key 100 of the applicable
  option does not reach \<^verbatim>\<open>cart_update\<close>, and the call with a key 7 that no option has does
  not end in \<^verbatim>\<open>NotFound\<close>: both end in the \<^verbatim>\<open>TypeError\<close> that
  \<^verbatim>\<open>get_available_shipping_skels_for_cart\<close> raises for this cart.
\<close>

theorem set_shipping_to_cart_explicit_key_scenario:
  "set_shipping_to_cart scenario_shop (Some 1) (Some 100) = Some (Inl TypeError)
   \<and> set_shipping_to_cart scenario_shop (Some 1) (Some 7) = Some (Inl TypeError)"
  using scenario_raises by (simp add: set_shipping_to_cart_def)

text \<open>
  Claim C9. On the cart of the spec's scenario, whose one applicable option is the option of
  cost 5, the call without a shipping key does not reach \<^verbatim>\<open>cart_update\<close>: it ends in the
  \<^verbatim>\<open>TypeError\<close> that \<^verbatim>\<open>get_available_shipping_skels_for_cart\<close> raises for this cart.
\<close>

theorem set_shipping_to_cart_cheapest_scenario:
  "set_shipping_to_cart scenario_shop (Some 1) None = Some (Inl TypeError)"
  using scenario_raises by (simp add: set_shipping_to_cart_def)

text \<open>
  When the list of applicable shippings that \<^verbatim>\<open>get_available_shipping_skels_for_cart\<close>
  returns for the cart is empty and no shipping key is given, \<^verbatim>\<open>set_shipping_to_cart\<close> does
  not end in \<^verbatim>\<open>NotFound\<close>: the error object for the empty list is built and dropped, the
  cart is loaded, and the minimum of the empty list raises \<^verbatim>\<open>ValueError\<close>. The function
  returns that list only for a cart without a candidate option.
\<close>

theorem set_shipping_to_cart_nothing_applicable:
  "get_available_shipping_skels_for_cart env cart_key = Some (Inr []) \<longrightarrow>
     set_shipping_to_cart env cart_key None = Some (Inl ValueError)"
proof
  assume a: "get_available_shipping_skels_for_cart env cart_key = Some (Inr [])"
  from get_available_loaded[OF a] obtain cart_skel where
    "fromDB (cart_nodes env) (if cart_key = None then current_session_cart_key env else cart_key) = Some cart_skel"
    by blast
  with a show "set_shipping_to_cart env cart_key None = Some (Inl ValueError)"
    using get_available_resolved[of env cart_key]
    by (simp add: set_shipping_to_cart_def Let_def del: if_split split del: if_split)
qed

text \<open>The cart without children has no applicable shipping, and the call ends in \<^verbatim>\<open>ValueError\<close>.\<close>

theorem set_shipping_to_cart_nothing_applicable_witness:
  "get_available_shipping_skels_for_cart bare_shop (Some 1) = Some (Inr [])
   \<and> set_shipping_to_cart bare_shop (Some 1) None = Some (Inl ValueError)"
proof -
  have a: "get_available_shipping_skels_for_cart bare_shop (Some 1) = Some (Inr [])"
    by (simp add: get_available_shipping_skels_for_cart_def get_shipping_skels_for_cart_def
        walk_cart_tree.simps fromDB_def bare_shop_def empty_shop_def deduplicate_def
        dict_values_def chain_from_iterable_def)
  with set_shipping_to_cart_nothing_applicable[of bare_shop "Some 1"] show ?thesis by blast
qed

text \<open>
  Claim C10. The cart 1 of the shop with the single inapplicable option has an empty set of
  applicable shippings: its one candidate, the option of cost 1, is rejected by the
  predicate. The call without a shipping key does not end in \<^verbatim>\<open>NotFound\<close>, but it does not
  reach the minimum of the empty list and its \<^verbatim>\<open>ValueError\<close> either: it ends in the
  \<^verbatim>\<open>TypeError\<close> that \<^verbatim>\<open>get_available_shipping_skels_for_cart\<close> raises for every cart with a
  candidate option.
\<close>

theorem set_shipping_to_cart_inapplicable_candidates:
  "get_shipping_skels_for_cart stuck_shop None (Some scenario_cart) = Some (Inr [option_1])
   \<and> filter (\<lambda>s. fst (is_applicable stuck_shop (dest s) (rel s) (ForCart scenario_cart)))
         [option_1] = []
   \<and> set_shipping_to_cart stuck_shop (Some 1) None = Some (Inl TypeError)"
proof -
  have g: "get_shipping_skels_for_cart stuck_shop None (Some scenario_cart)
      = Some (Inr [option_1])"
    by (simp add: get_shipping_skels_for_cart_def walk_cart_tree.simps stuck_shop_def
        article_shop_def empty_shop_def scenario_cart_def article_stuck_def deduplicate_def
        dict_values_def shipping_or_empty_def)
  have l: "fromDB (cart_nodes stuck_shop) (if Some (1::nat) = None
             then current_session_cart_key stuck_shop else Some 1) = Some scenario_cart"
    by (simp add: fromDB_def stuck_shop_def article_shop_def empty_shop_def scenario_cart_def)
  have a: "get_available_shipping_skels_for_cart stuck_shop (Some 1) = Some (Inl TypeError)"
    by (rule get_available_shipping_skels_for_cart_candidates[OF l g])
  have f: "filter (\<lambda>s. fst (is_applicable stuck_shop (dest s) (rel s) (ForCart scenario_cart)))
         [option_1] = []"
    by (simp add: stuck_shop_def article_shop_def empty_shop_def option_1_def)
  have s: "set_shipping_to_cart stuck_shop (Some 1) None = Some (Inl TypeError)"
    using a by (simp add: set_shipping_to_cart_def)
  from g f s show ?thesis by simp
qed

section \<open>Orders\<close>

lemma get_payment_provider_by_name_found:
  "\<exists>pp\<in>set pps. pp_name pp = n \<Longrightarrow>
     \<exists>pp. get_payment_provider_by_name pps n = Inr pp \<and> pp \<in> set pps \<and> pp_name pp = n"
  by (induction pps) auto

lemma get_payment_provider_by_name_find:
  "get_payment_provider_by_name pps n =
     (case find (\<lambda>pp. pp_name pp = n) pps of None \<Rightarrow> Inl LookupError | Some pp \<Rightarrow> Inr pp)"
  by (induction pps) auto

lemma can_order_already_ordered:
  assumes "is_ordered skel"
    and "\<not> truthy (payment_provider skel) \<or> (\<exists>pp\<in>set (payment_providers env). Some (pp_name pp) = payment_provider skel)"
  shows "\<exists>errors. can_order env skel = Inr errors \<and> ''already is_ordered'' \<in> set errors"
proof (cases "truthy (payment_provider skel)")
  case False
  with assms(1) show ?thesis by (simp add: can_order_def Let_def)
next
  case True
  then obtain n where n: "payment_provider skel = Some n" by (auto simp: truthy_def split: option.splits)
  with assms(2) True have "\<exists>pp\<in>set (payment_providers env). pp_name pp = n" by auto
  from get_payment_provider_by_name_found[OF this] obtain pp where
    "get_payment_provider_by_name (payment_providers env) n = Inr pp" by blast
  with assms(1) True n show ?thesis by (simp add: can_order_def Let_def)
qed

lemma can_order_passed:
  assumes "can_order env skel = Inr []"
  shows "\<not> is_ordered skel \<and> truthy (payment_provider skel)
     \<and> (\<exists>n pp. payment_provider skel = Some n \<and> get_payment_provider_by_name (payment_providers env) n = Inr pp)"
  using assms
  by (auto simp: can_order_def Let_def truthy_def split: if_splits sum.splits option.splits)

lemma can_order_after_success:
  assumes "can_order env skel = Inr []" "payment_providers env' = payment_providers env"
  shows "\<exists>errors. can_order env' (skel\<lparr>is_ordered := True\<rparr>) = Inr errors \<and> ''already is_ordered'' \<in> set errors"
proof -
  from can_order_passed[OF assms(1)] obtain n pp where
    "truthy (payment_provider skel)" "payment_provider skel = Some n"
    "get_payment_provider_by_name (payment_providers env) n = Inr pp" by blast
  then show ?thesis using assms(2) by (simp add: can_order_def Let_def)
qed

lemma checkout_order_failure:
  assumes "orders env k = Some skel" "can_order env skel = Inr errors" "errors \<noteq> []"
  shows "checkout_order env (Key k) = (Inr (JsonResponse (Errors errors) 400), env)"
  using assms by (simp add: checkout_order_def)

lemma checkout_order_success:
  assumes "checkout_order env (Key k) = (Inr (JsonResponse (Skel skel') 200), env')"
  shows "\<exists>skel. orders env k = Some skel \<and> can_order env skel = Inr []
            \<and> skel' = skel\<lparr>is_ordered := True\<rparr>
            \<and> env' = env\<lparr>orders := (orders env)(k \<mapsto> skel')\<rparr>"
  using assms
  by (auto simp: checkout_order_def Let_def split: option.splits sum.splits if_splits)


lemma order_add_raise_stores_nothing:
  "fst (order_add env cart_key payment_provider_arg billing_address_key email_arg customer_key
          state_ordered_arg state_paid_arg state_rts_arg new_key) = Inl e \<Longrightarrow>
   snd (order_add env cart_key payment_provider_arg billing_address_key email_arg customer_key
          state_ordered_arg state_paid_arg state_rts_arg new_key) = env"
  by (auto simp: order_add_def Let_def split: key_value.splits option.splits sum.splits if_splits)

lemma order_add_not_billing:
  assumes "is_valid_node env ck True" "cart_nodes env ck = Some cart_skel"
    and "customer_key \<noteq> Given NotAKey"
    and "addresses env bk = Some address" "address_type address \<noteq> BILLING"
  shows "order_add env (Key ck) payment_provider_arg (Given (Key bk)) email_arg customer_key
           state_ordered_arg state_paid_arg state_rts_arg new_key
         = (Inl (InvalidArgumentException ''shipping_address'' ''Address is not of type billing.''),
            env)"
  using assms by (simp add: order_add_def fromDB_def set_billing_address_def Let_def)

lemma checkout_start_success:
  assumes "checkout_start env (Key k) now = (Inr (JsonResponse (Skel skel') 200), env')"
  shows "\<exists>skel. orders env k = Some skel
            \<and> skel' = skel\<lparr>order_uid := order_uid (assign_uid now skel)\<rparr>
            \<and> env' = env\<lparr>orders := (orders env)(k \<mapsto> skel')\<rparr>"
  using assms
  by (auto simp: checkout_start_def freeze_order_def assign_uid_def Let_def
      split: option.splits sum.splits if_splits)

text \<open>
  Claim C1, for the orders whose payment provider can be looked up. When the stored order
  is already finalized and its payment provider is unset or registered, \<^verbatim>\<open>checkout_order\<close>
  returns the validation failures with status 400, among them \<^verbatim>\<open>already is_ordered\<close>, and
  the state stays as it was. When a call of \<^verbatim>\<open>checkout_order\<close> succeeds, the order was not
  finalized before, the call stores it with \<^verbatim>\<open>is_ordered\<close> set and nothing else changed, and
  the next call on the same order returns the validation failures with status 400, among them
  \<^verbatim>\<open>already is_ordered\<close>, and leaves the state as the first call left it.
\<close>

theorem checkout_order_already_ordered:
  "(orders env k = Some skel \<and> is_ordered skel
      \<and> (\<not> truthy (payment_provider skel)
           \<or> (\<exists>pp\<in>set (payment_providers env). Some (pp_name pp) = payment_provider skel)) \<longrightarrow>
      (\<exists>errors. checkout_order env (Key k) = (Inr (JsonResponse (Errors errors) 400), env)
          \<and> ''already is_ordered'' \<in> set errors))
   \<and> (checkout_order env (Key k) = (Inr (JsonResponse (Skel skel') 200), env') \<longrightarrow>
        (\<exists>skel. orders env k = Some skel \<and> \<not> is_ordered skel
            \<and> skel' = skel\<lparr>is_ordered := True\<rparr>
            \<and> env' = env\<lparr>orders := (orders env)(k \<mapsto> skel')\<rparr>)
        \<and> (\<exists>errors. checkout_order env' (Key k) = (Inr (JsonResponse (Errors errors) 400), env')
              \<and> ''already is_ordered'' \<in> set errors))"
proof (intro conjI impI)
  assume a: "orders env k = Some skel \<and> is_ordered skel
      \<and> (\<not> truthy (payment_provider skel)
           \<or> (\<exists>pp\<in>set (payment_providers env). Some (pp_name pp) = payment_provider skel))"
  then obtain errors where e: "can_order env skel = Inr errors" "''already is_ordered'' \<in> set errors"
    using can_order_already_ordered by blast
  then have "errors \<noteq> []" by auto
  with a e checkout_order_failure
  show "\<exists>errors. checkout_order env (Key k) = (Inr (JsonResponse (Errors errors) 400), env)
          \<and> ''already is_ordered'' \<in> set errors"
    by blast
next
  assume s: "checkout_order env (Key k) = (Inr (JsonResponse (Skel skel') 200), env')"
  from checkout_order_success[OF s] obtain skel where sk:
    "orders env k = Some skel" "can_order env skel = Inr []" "skel' = skel\<lparr>is_ordered := True\<rparr>"
    "env' = env\<lparr>orders := (orders env)(k \<mapsto> skel')\<rparr>"
    by blast
  from can_order_passed[OF sk(2)] sk
  show "\<exists>skel. orders env k = Some skel \<and> \<not> is_ordered skel
            \<and> skel' = skel\<lparr>is_ordered := True\<rparr>
            \<and> env' = env\<lparr>orders := (orders env)(k \<mapsto> skel')\<rparr>"
    by blast
  have pp: "payment_providers env' = payment_providers env" using sk(4) by simp
  from can_order_after_success[OF sk(2) pp] obtain errors where
    e: "can_order env' skel' = Inr errors" "''already is_ordered'' \<in> set errors"
    using sk(3) by blast
  then have ne: "errors \<noteq> []" by auto
  have o: "orders env' k = Some skel'" using sk(4) by simp
  from checkout_order_failure[OF o e(1) ne] e(2)
  show "\<exists>errors. checkout_order env' (Key k) = (Inr (JsonResponse (Errors errors) 400), env')
              \<and> ''already is_ordered'' \<in> set errors"
    by blast
qed

text \<open>
  Two calls in sequence on the order that is ready: the first call succeeds and stores the
  order as finalized, the second call returns the validation failure and stores nothing.
\<close>

theorem checkout_order_already_ordered_witness:
  "checkout_order ready_shop (Key 7)
     = (Inr (JsonResponse (Skel (ready_order\<lparr>is_ordered := True\<rparr>)) 200),
        ready_shop\<lparr>orders := (orders ready_shop)(7 \<mapsto> ready_order\<lparr>is_ordered := True\<rparr>)\<rparr>)
   \<and> (\<exists>errors.
        checkout_order
          (ready_shop\<lparr>orders := (orders ready_shop)(7 \<mapsto> ready_order\<lparr>is_ordered := True\<rparr>)\<rparr>) (Key 7)
          = (Inr (JsonResponse (Errors errors) 400),
             ready_shop\<lparr>orders := (orders ready_shop)(7 \<mapsto> ready_order\<lparr>is_ordered := True\<rparr>)\<rparr>)
        \<and> ''already is_ordered'' \<in> set errors)"
proof -
  let ?done = "ready_order\<lparr>is_ordered := True\<rparr>"
  let ?shop = "ready_shop\<lparr>orders := (orders ready_shop)(7 \<mapsto> ?done)\<rparr>"
  have first: "checkout_order ready_shop (Key 7) = (Inr (JsonResponse (Skel ?done) 200), ?shop)"
    by (simp add: checkout_order_def can_order_def truthy_def ready_shop_def empty_shop_def
        ready_order_def addSkel_def invoice_def Let_def)
  have stored: "orders ?shop 7 = Some ?done \<and> is_ordered ?done
      \<and> (\<not> truthy (payment_provider ?done)
           \<or> (\<exists>pp\<in>set (payment_providers ?shop). Some (pp_name pp) = payment_provider ?done))"
    by (simp add: ready_shop_def empty_shop_def ready_order_def addSkel_def invoice_def)
  from checkout_order_already_ordered[of ?shop 7 ?done] stored
  have again: "\<exists>errors. checkout_order ?shop (Key 7) = (Inr (JsonResponse (Errors errors) 400), ?shop)
          \<and> ''already is_ordered'' \<in> set errors"
    by blast
  from checkout_order_already_ordered[where env = ready_shop and k = 7 and skel' = ?done
      and env' = ?shop] first
  have "\<exists>errors. checkout_order ?shop (Key 7) = (Inr (JsonResponse (Errors errors) 400), ?shop)
          \<and> ''already is_ordered'' \<in> set errors"
    by blast
  with again first show ?thesis by blast
qed

text \<open>
  The claim as it is stated, for every order whose \<^verbatim>\<open>is_ordered\<close> flag is set, fails on a
  finalized order whose payment provider is not registered: the lookup of the provider raises
  \<^verbatim>\<open>LookupError\<close> before any validation failure is returned.
\<close>

theorem checkout_order_already_ordered_counterexample:
  "orders unregistered_shop 7 = Some finalized_order
   \<and> is_ordered finalized_order
   \<and> checkout_order unregistered_shop (Key 7) = (Inl LookupError, unregistered_shop)"
  by (simp add: checkout_order_def can_order_def truthy_def unregistered_shop_def empty_shop_def
      finalized_order_def addSkel_def Let_def)

text \<open>
  Claim C8, for the orders whose payment provider can be looked up. The failures of an order
  are those of all checks together: the missing cart, then the missing payment provider or
  else whatever the first registered provider with the order's name reports. When the payment
  provider of the stored order is unset or registered and these failures are not empty,
  \<^verbatim>\<open>can_checkout\<close> returns exactly them, and \<^verbatim>\<open>checkout_start\<close> raises nothing: it returns them
  with status 400 and the state stays as it was, so the order is neither frozen nor given a
  UID nor stored.
\<close>

theorem checkout_start_validation_failure:
  "orders env k = Some skel
   \<and> (\<not> truthy (payment_provider skel)
        \<or> (\<exists>pp\<in>set (payment_providers env). Some (pp_name pp) = payment_provider skel))
   \<and> failures =
        (if cart skel = None then [''missing cart''] else []) @
        (if \<not> truthy (payment_provider skel) then [''missing payment_provider'']
         else (case find (\<lambda>pp. Some (pp_name pp) = payment_provider skel) (payment_providers env) of
                 None \<Rightarrow> []
               | Some pp \<Rightarrow> pp_can_checkout pp skel))
   \<and> failures \<noteq> []
   \<longrightarrow> can_checkout env skel = Inr failures
       \<and> checkout_start env (Key k) now = (Inr (JsonResponse (Errors failures) 400), env)"
proof
  assume a: "orders env k = Some skel
   \<and> (\<not> truthy (payment_provider skel)
        \<or> (\<exists>pp\<in>set (payment_providers env). Some (pp_name pp) = payment_provider skel))
   \<and> failures =
        (if cart skel = None then [''missing cart''] else []) @
        (if \<not> truthy (payment_provider skel) then [''missing payment_provider'']
         else (case find (\<lambda>pp. Some (pp_name pp) = payment_provider skel) (payment_providers env) of
                 None \<Rightarrow> []
               | Some pp \<Rightarrow> pp_can_checkout pp skel))
   \<and> failures \<noteq> []"
  have c: "can_checkout env skel = Inr failures"
  proof (cases "truthy (payment_provider skel)")
    case False
    with a show ?thesis by (simp add: can_checkout_def Let_def)
  next
    case True
    then obtain n where n: "payment_provider skel = Some n"
      by (auto simp: truthy_def split: option.splits)
    with a True have "\<exists>pp\<in>set (payment_providers env). pp_name pp = n" by auto
    then obtain pp where pp: "find (\<lambda>pp. pp_name pp = n) (payment_providers env) = Some pp"
      by (cases "find (\<lambda>pp. pp_name pp = n) (payment_providers env)") (auto simp: find_None_iff)
    with a True n show ?thesis
      by (simp add: can_checkout_def Let_def get_payment_provider_by_name_find)
  qed
  from a have o: "orders env k = Some skel" by blast
  from a have ne: "failures \<noteq> []" by blast
  from c o ne show "can_checkout env skel = Inr failures
       \<and> checkout_start env (Key k) now = (Inr (JsonResponse (Errors failures) 400), env)"
    by (simp add: checkout_start_def)
qed

text \<open>
  The spec's scenario: \<^verbatim>\<open>order_add\<close> for cart 1 without a payment provider stores the order
  under the key 9; \<^verbatim>\<open>can_checkout\<close> reports the missing payment provider, and
  \<^verbatim>\<open>checkout_start\<close> returns it and leaves the stored order as \<^verbatim>\<open>order_add\<close> wrote it.
\<close>

theorem checkout_start_validation_failure_witness:
  "order_add counter_shop (Key 1) Sentinel Sentinel Sentinel Sentinel Sentinel Sentinel Sentinel 9
     = (Inr (addSkel\<lparr>cart := Some 1, total := 20\<rparr>),
        counter_shop\<lparr>orders := (orders counter_shop)(9 \<mapsto> addSkel\<lparr>cart := Some 1, total := 20\<rparr>)\<rparr>)
   \<and> can_checkout
        (counter_shop\<lparr>orders := (orders counter_shop)(9 \<mapsto> addSkel\<lparr>cart := Some 1, total := 20\<rparr>)\<rparr>)
        (addSkel\<lparr>cart := Some 1, total := 20\<rparr>) = Inr [''missing payment_provider'']
   \<and> checkout_start
        (counter_shop\<lparr>orders := (orders counter_shop)(9 \<mapsto> addSkel\<lparr>cart := Some 1, total := 20\<rparr>)\<rparr>)
        (Key 9) ''1700000000.25''
       = (Inr (JsonResponse (Errors [''missing payment_provider'']) 400),
          counter_shop\<lparr>orders := (orders counter_shop)(9 \<mapsto> addSkel\<lparr>cart := Some 1, total := 20\<rparr>)\<rparr>)"
proof -
  let ?draft = "addSkel\<lparr>cart := Some 1, total := 20\<rparr>"
  let ?shop = "counter_shop\<lparr>orders := (orders counter_shop)(9 \<mapsto> ?draft)\<rparr>"
  have added: "order_add counter_shop (Key 1) Sentinel Sentinel Sentinel Sentinel Sentinel Sentinel
      Sentinel 9 = (Inr ?draft, ?shop)"
    by (simp add: order_add_def fromDB_def set_billing_address_def set_user_defaults_def
        set_email_def set_customer_def set_states_def counter_shop_def empty_shop_def
        detach_session_cart_def Let_def)
  have given: "orders ?shop 9 = Some ?draft
   \<and> (\<not> truthy (payment_provider ?draft)
        \<or> (\<exists>pp\<in>set (payment_providers ?shop). Some (pp_name pp) = payment_provider ?draft))
   \<and> [''missing payment_provider''] =
        (if cart ?draft = None then [''missing cart''] else []) @
        (if \<not> truthy (payment_provider ?draft) then [''missing payment_provider'']
         else (case find (\<lambda>pp. Some (pp_name pp) = payment_provider ?draft) (payment_providers ?shop) of
                 None \<Rightarrow> []
               | Some pp \<Rightarrow> pp_can_checkout pp ?draft))
   \<and> [''missing payment_provider''] \<noteq> []"
    by (simp add: truthy_def addSkel_def)
  from checkout_start_validation_failure[of ?shop 9 ?draft "[''missing payment_provider'']"
      "''1700000000.25''"] given
  have "can_checkout ?shop ?draft = Inr [''missing payment_provider'']
      \<and> checkout_start ?shop (Key 9) ''1700000000.25''
          = (Inr (JsonResponse (Errors [''missing payment_provider'']) 400), ?shop)"
    by blast
  with added show ?thesis by simp
qed

text \<open>
  The claim as it is stated, for every order that fails the validation, fails on the order
  without a cart whose payment provider is not registered: the order fails the check for the
  cart, and the lookup of the provider raises \<^verbatim>\<open>LookupError\<close>, so that \<^verbatim>\<open>checkout_start\<close> raises
  instead of returning the failures.
\<close>

theorem checkout_start_validation_failure_counterexample:
  "orders cartless_shop 7 = Some cartless_order
   \<and> cart cartless_order = None
   \<and> can_checkout cartless_shop cartless_order = Inl LookupError
   \<and> checkout_start cartless_shop (Key 7) ''1700000000.25'' = (Inl LookupError, cartless_shop)"
  by (simp add: checkout_start_def can_checkout_def truthy_def cartless_shop_def empty_shop_def
      cartless_order_def addSkel_def Let_def)

text \<open>
  Claim C2. \<^verbatim>\<open>freeze_order\<close> copies nothing. The order 7 was added when its cart had a
  total of 10, and the cart has a total of 20 when \<^verbatim>\<open>checkout_start\<close> runs: the order passes
  \<^verbatim>\<open>can_checkout\<close> and is stored with its UID and with the total of 10, every other bone as
  it was loaded.
\<close>

theorem checkout_start_freezes_nothing:
  "can_checkout stale_shop stale_order = Inr []
   \<and> fromDB (cart_nodes stale_shop) (cart stale_order) = Some \<lparr>node_key = 1, node_total = 20\<rparr>
   \<and> freeze_order stale_order = stale_order
   \<and> checkout_start stale_shop (Key 7) ''1700000000.25''
       = (Inr (JsonResponse (Skel (stale_order\<lparr>order_uid := Some ''1700-0000-0025''\<rparr>)) 200),
          stale_shop\<lparr>orders :=
            (orders stale_shop)(7 \<mapsto> stale_order\<lparr>order_uid := Some ''1700-0000-0025''\<rparr>)\<rparr>)
   \<and> total (stale_order\<lparr>order_uid := Some ''1700-0000-0025''\<rparr>) = 10"
proof -
  have c: "can_checkout stale_shop stale_order = Inr []"
    by (simp add: can_checkout_def truthy_def stale_shop_def counter_shop_def empty_shop_def
        stale_order_def addSkel_def invoice_def Let_def)
  have l: "fromDB (cart_nodes stale_shop) (cart stale_order) = Some \<lparr>node_key = 1, node_total = 20\<rparr>"
    by (simp add: fromDB_def stale_shop_def counter_shop_def empty_shop_def stale_order_def
        addSkel_def)
  have u: "assign_uid ''1700000000.25'' stale_order
      = stale_order\<lparr>order_uid := Some ''1700-0000-0025''\<rparr>"
    by (simp add: assign_uid_def strip_dash_def enumerate_eq_zip upt_rec)
  have o: "orders stale_shop 7 = Some stale_order"
    by (simp add: stale_shop_def)
  have s: "checkout_start stale_shop (Key 7) ''1700000000.25''
       = (Inr (JsonResponse (Skel (stale_order\<lparr>order_uid := Some ''1700-0000-0025''\<rparr>)) 200),
          stale_shop\<lparr>orders :=
            (orders stale_shop)(7 \<mapsto> stale_order\<lparr>order_uid := Some ''1700-0000-0025''\<rparr>)\<rparr>)"
    by (simp add: checkout_start_def o c freeze_order_def u Let_def)
  have t: "total (stale_order\<lparr>order_uid := Some ''1700-0000-0025''\<rparr>) = 10"
    by (simp add: stale_order_def addSkel_def)
  from c l s t show ?thesis by (simp add: freeze_order_def)
qed

text \<open>
  Claim C7. \<^verbatim>\<open>order_add\<close> for the valid root cart 1 with the key of the shipping address 5
  as billing address raises the invalid-argument exception and stores nothing; the field
  that the exception names is \<^verbatim>\<open>shipping_address\<close>, while the argument that is rejected is the
  billing address.
\<close>

theorem order_add_wrong_address_type:
  "order_add counter_shop (Key 1) Sentinel (Given (Key 5)) Sentinel Sentinel Sentinel Sentinel
     Sentinel 9
     = (Inl (InvalidArgumentException ''shipping_address'' ''Address is not of type billing.''),
        counter_shop)"
  by (simp add: order_add_def fromDB_def set_billing_address_def counter_shop_def empty_shop_def
      Let_def)

end
